theory Spec2Isabelle
  imports Main "HOL-Library.AList"
begin

section \<open>JavaScript values, strings and objects\<close>

text \<open>
  Values that cross the wire are JSON values. Numbers are restricted to integers (identifiers,
  seat counts and status codes are integers in this client); an object is the list of its own
  properties in insertion order. A raw response text is the JavaScript string \<open>JStr\<close>.
\<close>

datatype json =
    JNull
  | JBool bool
  | JNum int
  | JStr string
  | JArr "json list"
  | JObj "(string \<times> json) list"

text \<open>Truthiness as used by \<open>x ? a : b\<close>, \<open>if (x)\<close> and \<open>x || y\<close>.\<close>

fun js_truthy :: "json \<Rightarrow> bool" where
  "js_truthy JNull = False"
| "js_truthy (JBool b) = b"
| "js_truthy (JNum n) = (n \<noteq> 0)"
| "js_truthy (JStr s) = (s \<noteq> [])"
| "js_truthy (JArr xs) = True"
| "js_truthy (JObj kvs) = True"

text \<open>
  Decimal rendering of an integer inside a template literal \<open>`${n}`\<close> (JavaScript prints a
  number this way below \<open>10^21\<close>).
\<close>

definition digit_char :: "nat \<Rightarrow> char" where
  "digit_char d = ''0123456789'' ! d"

fun nat_to_string :: "nat \<Rightarrow> string" where
  "nat_to_string n =
     (if n < 10 then [digit_char n] else nat_to_string (n div 10) @ [digit_char (n mod 10)])"

definition number_to_string :: "int \<Rightarrow> string" where
  "number_to_string i =
     (if i < 0 then CHR ''-'' # nat_to_string (nat (- i)) else nat_to_string (nat i))"

text \<open>\<open>String.prototype.includes\<close>: the pattern occurs as a contiguous substring.\<close>

fun starts_with :: "string \<Rightarrow> string \<Rightarrow> bool" where
  "starts_with s [] = True"
| "starts_with [] (p # ps) = False"
| "starts_with (c # cs) (p # ps) = (c = p \<and> starts_with cs ps)"

fun str_includes :: "string \<Rightarrow> string \<Rightarrow> bool" where
  "str_includes [] p = (p = [])"
| "str_includes (c # cs) p = (starts_with (c # cs) p \<or> str_includes cs p)"

text \<open>\<open>Object.keys\<close>: the own property names of an object; none for any other JSON value.\<close>

fun object_keys :: "json \<Rightarrow> string list" where
  "object_keys (JObj kvs) = map fst kvs"
| "object_keys v = []"

type_synonym headers = "(string \<times> string) list"

text \<open>Object spread \<open>{...a, ...b}\<close> on string-valued objects: later properties win in place.\<close>

definition spread :: "headers \<Rightarrow> headers \<Rightarrow> headers" where
  "spread a b = foldl (\<lambda>acc kv. AList.update (fst kv) (snd kv) acc) a b"

section \<open>Browser state, requests and responses\<close>

text \<open>
  The ambient state the modules run in: the persisted key-value store \<open>localStorage\<close> and
  the address \<open>window.location.href\<close> the host navigates to.
\<close>

record browser =
  localStorage :: "(string \<times> string) list"
  location_href :: string

definition getItem :: "browser \<Rightarrow> string \<Rightarrow> string option" where
  "getItem st k = map_of (localStorage st) k"

definition removeItem :: "string \<Rightarrow> browser \<Rightarrow> browser" where
  "removeItem k st = st\<lparr>localStorage := AList.delete k (localStorage st)\<rparr>"

datatype http_method = GET | POST | PUT | PATCH | DELETE

text \<open>
  A request body is either the text \<open>JSON.stringify\<close> produced from a value, or the
  name-value pairs of a \<open>URLSearchParams\<close> object (sent form-encoded).
\<close>

datatype req_body = JsonText json | FormParams "(string \<times> string) list"

record request =
  req_url :: string
  req_method :: http_method
  req_headers :: headers
  req_body :: "req_body option"

text \<open>The property names of the object a request carries as its JSON body.\<close>

definition body_keys :: "request \<Rightarrow> string list" where
  "body_keys req =
     (case req_body req of
        None \<Rightarrow> []
      | Some (JsonText j) \<Rightarrow> object_keys j
      | Some (FormParams ps) \<Rightarrow> [])"

text \<open>
  A response: \<open>resp_content_type\<close> is \<open>headers.get('content-type')\<close>, \<open>resp_text\<close> what
  \<open>text()\<close> resolves to, \<open>resp_json\<close> what \<open>json()\<close> resolves to (\<open>None\<close> when the body is
  not parseable JSON and \<open>json()\<close> rejects).
\<close>

record response =
  resp_status :: nat
  resp_statusText :: string
  resp_content_type :: "string option"
  resp_text :: string
  resp_json :: "json option"

definition resp_ok :: "response \<Rightarrow> bool" where
  "resp_ok r = (200 \<le> resp_status r \<and> resp_status r \<le> 299)"

text \<open>
  What a call can raise. \<open>Error m\<close> is a plain \<open>Error\<close> with message \<open>m\<close>; \<open>ApiError s m\<close>
  carries a status as well. \<open>ErrorOfValue v\<close> stands for what \<open>throw new Error(v)\<close> raises
  for a value \<open>v\<close> that is not a string: the constructor converts \<open>v\<close> to a string first, and
  that conversion (which can itself throw) is not interpreted here.
\<close>

datatype js_error =
    Error string
  | ErrorOfValue json
  | ApiError nat string
  | SyntaxError
  | TypeError

fun new_Error :: "json \<Rightarrow> js_error" where
  "new_Error (JStr s) = Error s"
| "new_Error v = ErrorOfValue v"

text \<open>\<open>fetch\<close>: the network answers a request with a response, or the call rejects (\<open>None\<close>).\<close>

type_synonym network = "request \<Rightarrow> response option"

definition always :: "response \<Rightarrow> network" where
  "always r req = Some r"

text \<open>\<open>process.env.NEXT_PUBLIC_API_URL || 'http://localhost:8000'\<close>\<close>

definition API_BASE_URL :: "string option \<Rightarrow> string" where
  "API_BASE_URL env =
     (case env of
        None \<Rightarrow> ''http://localhost:8000''
      | Some u \<Rightarrow> if u \<noteq> [] then u else ''http://localhost:8000'')"

section \<open>Frontend module: \<open>ApiClient\<close>\<close>

definition defaultHeaders :: headers where
  "defaultHeaders = [(''Content-Type'', ''application/json'')]"

definition getAuthHeaders :: "browser \<Rightarrow> headers" where
  "getAuthHeaders st =
     (case getItem st ''token'' of
        None \<Rightarrow> defaultHeaders
      | Some token \<Rightarrow>
          if token \<noteq> [] then spread defaultHeaders [(''Authorization'', ''Bearer '' @ token)]
          else defaultHeaders)"

text \<open>
  \<open>new Error(error.message || `HTTP ${status}`)\<close> for the value \<open>error\<close> decoded from an
  error body. The property access \<open>error.message\<close> throws a \<open>TypeError\<close> on null, is the
  own property of an object, and is undefined on every other value.
\<close>

fun message_or_status :: "json \<Rightarrow> nat \<Rightarrow> js_error" where
  "message_or_status JNull status = TypeError"
| "message_or_status (JObj kvs) status =
     (case map_of kvs ''message'' of
        None \<Rightarrow> Error (''HTTP '' @ nat_to_string status)
      | Some m \<Rightarrow>
          if js_truthy m then new_Error m
          else Error (''HTTP '' @ nat_to_string status))"
| "message_or_status v status = Error (''HTTP '' @ nat_to_string status)"

definition handleResponse :: "browser \<Rightarrow> response \<Rightarrow> browser \<times> (js_error + json)" where
  "handleResponse st r =
     (if \<not> resp_ok r then
        (let st' = (if resp_status r = 401
                    then (removeItem ''user'' (removeItem ''token'' st))\<lparr>location_href := ''/login''\<rparr>
                    else st);
             error = (case resp_json r of
                        None \<Rightarrow> JObj [(''message'', JStr ''Network error'')]
                      | Some e \<Rightarrow> e)
         in (st', Inl (message_or_status error (resp_status r))))
      else
        (case resp_content_type r of
           None \<Rightarrow> (st, Inr (JStr (resp_text r)))
         | Some contentType \<Rightarrow>
             if contentType \<noteq> [] \<and> str_includes contentType ''application/json''
             then (case resp_json r of
                     None \<Rightarrow> (st, Inl SyntaxError)
                   | Some j \<Rightarrow> (st, Inr j))
             else (st, Inr (JStr (resp_text r)))))"

text \<open>
  The four verbs \<open>get\<close>, \<open>post\<close>, \<open>put\<close> and \<open>delete\<close>. Each builds the arguments of
  \<open>fetch\<close> from the base URL, the endpoint and the store; \<open>post\<close> and \<open>put\<close> send
  \<open>data ? JSON.stringify(data) : undefined\<close> as the body.
\<close>

definition stringify_body :: "json option \<Rightarrow> req_body option" where
  "stringify_body data =
     (case data of
        None \<Rightarrow> None
      | Some d \<Rightarrow> if js_truthy d then Some (JsonText d) else None)"

definition apiClient_get :: "string option \<Rightarrow> browser \<Rightarrow> string \<Rightarrow> request" where
  "apiClient_get env st endpoint =
     \<lparr>req_url = API_BASE_URL env @ endpoint, req_method = GET,
      req_headers = getAuthHeaders st, req_body = None\<rparr>"

definition apiClient_post ::
  "string option \<Rightarrow> browser \<Rightarrow> string \<Rightarrow> json option \<Rightarrow> request" where
  "apiClient_post env st endpoint data =
     \<lparr>req_url = API_BASE_URL env @ endpoint, req_method = POST,
      req_headers = getAuthHeaders st, req_body = stringify_body data\<rparr>"

definition apiClient_put ::
  "string option \<Rightarrow> browser \<Rightarrow> string \<Rightarrow> json option \<Rightarrow> request" where
  "apiClient_put env st endpoint data =
     \<lparr>req_url = API_BASE_URL env @ endpoint, req_method = PUT,
      req_headers = getAuthHeaders st, req_body = stringify_body data\<rparr>"

definition apiClient_delete :: "string option \<Rightarrow> browser \<Rightarrow> string \<Rightarrow> request" where
  "apiClient_delete env st endpoint =
     \<lparr>req_url = API_BASE_URL env @ endpoint, req_method = DELETE,
      req_headers = getAuthHeaders st, req_body = None\<rparr>"

text \<open>
  What every verb does with its request: \<open>await fetch(...)\<close>, then \<open>handleResponse\<close>. A
  rejected \<open>fetch\<close> rejects the call with the \<open>TypeError\<close> it raised.
\<close>

definition client_send :: "network \<Rightarrow> browser \<Rightarrow> request \<Rightarrow> browser \<times> (js_error + json)" where
  "client_send net st req =
     (case net req of
        None \<Rightarrow> (st, Inl TypeError)
      | Some response \<Rightarrow> handleResponse st response)"

section \<open>Frontend module: resource operations\<close>

text \<open>
  The parameter types of the operations. Field names carry a prefix per type; the property
  names sent on the wire are the source's. \<open>Partial<...>\<close> makes every field optional, and
  \<open>JSON.stringify\<close> leaves out a property whose value is undefined.

  The parameter types exist at compile time only, and an object with further properties is
  assignable to them (a whole \<open>Bus\<close> to \<open>Omit<Bus, 'id' | ...>\<close>). The three create
  operations therefore take the object the caller passes, as a JSON value, and forward it as
  it is; \<open>bus_json\<close>, \<open>route_json\<close> and \<open>reservation_json\<close> build the objects that have
  exactly the declared fields.
\<close>

definition optional_fields :: "(string \<times> json option) list \<Rightarrow> json" where
  "optional_fields kvs = JObj (List.map_filter (\<lambda>kv. map_option (Pair (fst kv)) (snd kv)) kvs)"

record login_data =
  username :: string
  password :: string

text \<open>\<open>Omit<Route, 'id' | 'is_active' | 'created_at'>\<close> and its \<open>Partial\<close>.\<close>

record route_data =
  r_name :: string
  r_departure_location :: string
  r_destination :: string

definition route_json :: "route_data \<Rightarrow> json" where
  "route_json d =
     JObj [(''name'', JStr (r_name d)),
           (''departure_location'', JStr (r_departure_location d)),
           (''destination'', JStr (r_destination d))]"

record route_partial =
  rp_name :: "string option"
  rp_departure_location :: "string option"
  rp_destination :: "string option"

definition route_partial_json :: "route_partial \<Rightarrow> json" where
  "route_partial_json d =
     optional_fields
       [(''name'', map_option JStr (rp_name d)),
        (''departure_location'', map_option JStr (rp_departure_location d)),
        (''destination'', map_option JStr (rp_destination d))]"

datatype bus_type = Seat28 | Seat45

fun bus_type_string :: "bus_type \<Rightarrow> string" where
  "bus_type_string Seat28 = ''28-seat''"
| "bus_type_string Seat45 = ''45-seat''"

text \<open>\<open>Omit<Bus, 'id' | 'available_seats' | 'occupancy_rate'>\<close>\<close>

record bus_data =
  b_bus_number :: string
  b_route :: string
  b_departure_time :: string
  b_arrival_time :: string
  b_destination :: string
  b_bus_type :: bus_type
  b_total_seats :: int

definition bus_json :: "bus_data \<Rightarrow> json" where
  "bus_json d =
     JObj [(''bus_number'', JStr (b_bus_number d)),
           (''route'', JStr (b_route d)),
           (''departure_time'', JStr (b_departure_time d)),
           (''arrival_time'', JStr (b_arrival_time d)),
           (''destination'', JStr (b_destination d)),
           (''bus_type'', JStr (bus_type_string (b_bus_type d))),
           (''total_seats'', JNum (b_total_seats d))]"

text \<open>\<open>Partial<Bus>\<close>\<close>

record bus_partial =
  bp_id :: "int option"
  bp_bus_number :: "string option"
  bp_route :: "string option"
  bp_departure_time :: "string option"
  bp_arrival_time :: "string option"
  bp_destination :: "string option"
  bp_bus_type :: "bus_type option"
  bp_total_seats :: "int option"
  bp_available_seats :: "int option"
  bp_occupancy_rate :: "int option"

definition bus_partial_json :: "bus_partial \<Rightarrow> json" where
  "bus_partial_json d =
     optional_fields
       [(''id'', map_option JNum (bp_id d)),
        (''bus_number'', map_option JStr (bp_bus_number d)),
        (''route'', map_option JStr (bp_route d)),
        (''departure_time'', map_option JStr (bp_departure_time d)),
        (''arrival_time'', map_option JStr (bp_arrival_time d)),
        (''destination'', map_option JStr (bp_destination d)),
        (''bus_type'', map_option (\<lambda>t. JStr (bus_type_string t)) (bp_bus_type d)),
        (''total_seats'', map_option JNum (bp_total_seats d)),
        (''available_seats'', map_option JNum (bp_available_seats d)),
        (''occupancy_rate'', map_option JNum (bp_occupancy_rate d))]"

text \<open>\<open>{ bus_id: number; seat_numbers: string[]; reservation_date: string }\<close>\<close>

record reservation_data =
  rc_bus_id :: int
  rc_seat_numbers :: "string list"
  rc_reservation_date :: string

definition reservation_json :: "reservation_data \<Rightarrow> json" where
  "reservation_json d =
     JObj [(''bus_id'', JNum (rc_bus_id d)),
           (''seat_numbers'', JArr (map JStr (rc_seat_numbers d))),
           (''reservation_date'', JStr (rc_reservation_date d))]"

text \<open>\<open>{ user_id: number; bus_id: number; seat_numbers: string[] }\<close>\<close>

record direct_data =
  dr_user_id :: int
  dr_bus_id :: int
  dr_seat_numbers :: "string list"

definition direct_json :: "direct_data \<Rightarrow> json" where
  "direct_json d =
     JObj [(''user_id'', JNum (dr_user_id d)),
           (''bus_id'', JNum (dr_bus_id d)),
           (''seat_numbers'', JArr (map JStr (dr_seat_numbers d)))]"

text \<open>\<open>reservationDate ? `?reservation_date=${reservationDate}` : ''\<close>\<close>

definition date_params :: "string option \<Rightarrow> string" where
  "date_params reservationDate =
     (case reservationDate of
        None \<Rightarrow> []
      | Some d \<Rightarrow> if d \<noteq> [] then ''?reservation_date='' @ d else [])"

text \<open>The operations of \<open>authAPI\<close>, \<open>routeAPI\<close>, \<open>busAPI\<close>, \<open>reservationAPI\<close>, \<open>adminAPI\<close>, \<open>userAPI\<close>.\<close>

datatype fe_op =
    authAPI_login login_data
  | authAPI_logout
  | authAPI_me
  | routeAPI_getAll
  | routeAPI_create json
  | routeAPI_update int route_partial
  | routeAPI_delete int
  | busAPI_getAll "string option"
  | busAPI_getById int
  | busAPI_create json
  | busAPI_update int bus_partial
  | busAPI_delete int
  | busAPI_getMyBuses
  | busAPI_getMyBus "string option"
  | busAPI_getSeats int string
  | reservationAPI_getAll
  | reservationAPI_getUserReservations
  | reservationAPI_create json
  | reservationAPI_cancel int
  | adminAPI_getStats
  | adminAPI_getAllUsers
  | adminAPI_createDirectReservation direct_data
  | userAPI_getDrivers

text \<open>\<open>authAPI.login\<close> calls \<open>fetch\<close> itself; every other operation goes through \<open>apiClient\<close>.\<close>

fun uses_apiClient :: "fe_op \<Rightarrow> bool" where
  "uses_apiClient (authAPI_login data) = False"
| "uses_apiClient op = True"

definition login_request :: "string option \<Rightarrow> login_data \<Rightarrow> request" where
  "login_request env data =
     \<lparr>req_url = API_BASE_URL env @ ''/api/auth/login'', req_method = POST,
      req_headers = [(''Content-Type'', ''application/x-www-form-urlencoded'')],
      req_body = Some (FormParams [(''username'', username data), (''password'', password data)])\<rparr>"

definition login_response :: "browser \<Rightarrow> response \<Rightarrow> browser \<times> (js_error + json)" where
  "login_response st r =
     (if \<not> resp_ok r then
        (let error = (case resp_json r of
                        None \<Rightarrow> JObj [(''message'', JStr ''Login failed'')]
                      | Some e \<Rightarrow> e)
         in (st, Inl (message_or_status error (resp_status r))))
      else
        (case resp_json r of
           None \<Rightarrow> (st, Inl SyntaxError)
         | Some j \<Rightarrow> (st, Inr j)))"

fun fe_request :: "string option \<Rightarrow> browser \<Rightarrow> fe_op \<Rightarrow> request" where
  "fe_request env st (authAPI_login data) = login_request env data"
| "fe_request env st authAPI_logout = apiClient_post env st ''/api/auth/logout'' None"
| "fe_request env st authAPI_me = apiClient_get env st ''/api/auth/me''"
| "fe_request env st routeAPI_getAll = apiClient_get env st ''/api/buses/routes''"
| "fe_request env st (routeAPI_create data) =
     apiClient_post env st ''/api/buses/routes'' (Some data)"
| "fe_request env st (routeAPI_update i data) =
     apiClient_put env st (''/api/buses/routes/'' @ number_to_string i)
       (Some (route_partial_json data))"
| "fe_request env st (routeAPI_delete i) =
     apiClient_delete env st (''/api/buses/routes/'' @ number_to_string i)"
| "fe_request env st (busAPI_getAll reservationDate) =
     apiClient_get env st (''/api/buses/'' @ date_params reservationDate)"
| "fe_request env st (busAPI_getById i) =
     apiClient_get env st (''/api/buses/'' @ number_to_string i)"
| "fe_request env st (busAPI_create data) =
     apiClient_post env st ''/api/buses/'' (Some data)"
| "fe_request env st (busAPI_update i data) =
     apiClient_put env st (''/api/buses/'' @ number_to_string i @ ''/'')
       (Some (bus_partial_json data))"
| "fe_request env st (busAPI_delete i) =
     apiClient_delete env st (''/api/buses/'' @ number_to_string i @ ''/'')"
| "fe_request env st busAPI_getMyBuses =
     apiClient_get env st ''/api/buses/driver/my-buses''"
| "fe_request env st (busAPI_getMyBus reservationDate) =
     apiClient_get env st (''/api/buses/driver/my-bus'' @ date_params reservationDate)"
| "fe_request env st (busAPI_getSeats busId reservationDate) =
     apiClient_get env st
       (''/api/buses/'' @ number_to_string busId @ ''/seats?reservation_date='' @ reservationDate)"
| "fe_request env st reservationAPI_getAll =
     apiClient_get env st ''/api/reservations/''"
| "fe_request env st reservationAPI_getUserReservations =
     apiClient_get env st ''/api/reservations/user''"
| "fe_request env st (reservationAPI_create data) =
     apiClient_post env st ''/api/reservations/'' (Some data)"
| "fe_request env st (reservationAPI_cancel i) =
     apiClient_delete env st (''/api/reservations/'' @ number_to_string i @ ''/'')"
| "fe_request env st adminAPI_getStats =
     apiClient_get env st ''/api/admin/dashboard''"
| "fe_request env st adminAPI_getAllUsers =
     apiClient_get env st ''/api/admin/users''"
| "fe_request env st (adminAPI_createDirectReservation data) =
     apiClient_post env st ''/api/admin/reservations/direct'' (Some (direct_json data))"
| "fe_request env st userAPI_getDrivers =
     apiClient_get env st ''/api/users/drivers''"

text \<open>Running an operation: the request is sent and the response handled.\<close>

definition fe_run ::
  "string option \<Rightarrow> network \<Rightarrow> browser \<Rightarrow> fe_op \<Rightarrow> browser \<times> (js_error + json)" where
  "fe_run env net st op =
     (if uses_apiClient op then client_send net st (fe_request env st op)
      else (case net (fe_request env st op) of
              None \<Rightarrow> (st, Inl TypeError)
            | Some response \<Rightarrow> login_response st response))"

section \<open>Second module: \<open>apiRequest\<close> and \<open>api\<close>\<close>

text \<open>
  \<open>RequestInit\<close> as the operations build it: each property may be absent. \<open>fetch\<close> uses GET
  when no method is given.
\<close>

record request_init =
  init_method :: "http_method option"
  init_headers :: "headers option"
  init_body :: "req_body option"

definition no_options :: request_init where
  "no_options = \<lparr>init_method = None, init_headers = None, init_body = None\<rparr>"

text \<open>
  The second argument of \<open>fetch\<close> is
  \<open>{ headers: { 'Content-Type': 'application/json', ...options.headers }, ...options }\<close>:
  the spread of \<open>options\<close> comes last, so a \<open>headers\<close> property of \<open>options\<close> replaces the
  merged one.
\<close>

definition apiRequest_fetch :: "string option \<Rightarrow> string \<Rightarrow> request_init \<Rightarrow> request" where
  "apiRequest_fetch env endpoint options =
     (let merged = spread [(''Content-Type'', ''application/json'')]
                     (case init_headers options of None \<Rightarrow> [] | Some h \<Rightarrow> h)
      in \<lparr>req_url = API_BASE_URL env @ endpoint,
          req_method = (case init_method options of None \<Rightarrow> GET | Some m \<Rightarrow> m),
          req_headers = (case init_headers options of None \<Rightarrow> merged | Some h \<Rightarrow> h),
          req_body = init_body options\<rparr>)"

definition apiRequest ::
  "string option \<Rightarrow> network \<Rightarrow> browser \<Rightarrow> string \<Rightarrow> request_init \<Rightarrow> browser \<times> (js_error + json)"
  where
  "apiRequest env net st endpoint options =
     (case net (apiRequest_fetch env endpoint options) of
        None \<Rightarrow> (st, Inl TypeError)
      | Some response \<Rightarrow>
          if \<not> resp_ok response
          then (st, Inl (ApiError (resp_status response)
                           (''API request failed: '' @ resp_statusText response)))
          else (case resp_json response of
                  None \<Rightarrow> (st, Inl SyntaxError)
                | Some j \<Rightarrow> (st, Inr j)))"

text \<open>\<open>Omit<Bus, 'id'>\<close> and \<open>Partial<Bus>\<close> of this module's \<open>Bus\<close>.\<close>

record bus2_data =
  b2_destination :: string
  b2_departureTime :: string
  b2_capacity :: int
  b2_occupiedSeats :: "int list"
  b2_driver :: "string option"

definition bus2_json :: "bus2_data \<Rightarrow> json" where
  "bus2_json d =
     optional_fields
       [(''destination'', Some (JStr (b2_destination d))),
        (''departureTime'', Some (JStr (b2_departureTime d))),
        (''capacity'', Some (JNum (b2_capacity d))),
        (''occupiedSeats'', Some (JArr (map JNum (b2_occupiedSeats d)))),
        (''driver'', map_option JStr (b2_driver d))]"

record bus2_partial =
  bp2_id :: "int option"
  bp2_destination :: "string option"
  bp2_departureTime :: "string option"
  bp2_capacity :: "int option"
  bp2_occupiedSeats :: "int list option"
  bp2_driver :: "string option"

definition bus2_partial_json :: "bus2_partial \<Rightarrow> json" where
  "bus2_partial_json d =
     optional_fields
       [(''id'', map_option JNum (bp2_id d)),
        (''destination'', map_option JStr (bp2_destination d)),
        (''departureTime'', map_option JStr (bp2_departureTime d)),
        (''capacity'', map_option JNum (bp2_capacity d)),
        (''occupiedSeats'', map_option (\<lambda>xs. JArr (map JNum xs)) (bp2_occupiedSeats d)),
        (''driver'', map_option JStr (bp2_driver d))]"

datatype reservation_status = Confirmed | Cancelled

fun status_string :: "reservation_status \<Rightarrow> string" where
  "status_string Confirmed = ''confirmed''"
| "status_string Cancelled = ''cancelled''"

text \<open>\<open>Omit<Reservation, 'id' | 'createdAt'>\<close>\<close>

record reservation2_data =
  r2_userId :: int
  r2_busId :: int
  r2_seatNumber :: int
  r2_status :: reservation_status

definition reservation2_json :: "reservation2_data \<Rightarrow> json" where
  "reservation2_json d =
     JObj [(''userId'', JNum (r2_userId d)),
           (''busId'', JNum (r2_busId d)),
           (''seatNumber'', JNum (r2_seatNumber d)),
           (''status'', JStr (status_string (r2_status d)))]"

datatype user_role = Admin | User | Driver

fun role_string :: "user_role \<Rightarrow> string" where
  "role_string Admin = ''admin''"
| "role_string User = ''user''"
| "role_string Driver = ''driver''"

text \<open>\<open>Omit<User, 'id'>\<close>\<close>

record user2_data =
  u2_name :: string
  u2_email :: string
  u2_role :: user_role

definition user2_json :: "user2_data \<Rightarrow> json" where
  "user2_json d =
     JObj [(''name'', JStr (u2_name d)),
           (''email'', JStr (u2_email d)),
           (''role'', JStr (role_string (u2_role d)))]"

datatype api_op =
    api_buses_getAll
  | api_buses_getById int
  | api_buses_create bus2_data
  | api_buses_update int bus2_partial
  | api_buses_delete int
  | api_reservations_getAll
  | api_reservations_getByUserId int
  | api_reservations_getByBusId int
  | api_reservations_create reservation2_data
  | api_reservations_cancel int
  | api_users_getAll
  | api_users_getById int
  | api_users_create user2_data
  | api_auth_login string string
  | api_auth_logout

text \<open>The endpoint and the options each operation passes to \<open>apiRequest\<close>.\<close>

fun api_call :: "api_op \<Rightarrow> string \<times> request_init" where
  "api_call api_buses_getAll = (''/api/buses'', no_options)"
| "api_call (api_buses_getById i) = (''/api/buses/'' @ number_to_string i, no_options)"
| "api_call (api_buses_create data) =
     (''/api/buses'',
      \<lparr>init_method = Some POST, init_headers = None,
       init_body = Some (JsonText (bus2_json data))\<rparr>)"
| "api_call (api_buses_update i data) =
     (''/api/buses/'' @ number_to_string i,
      \<lparr>init_method = Some PUT, init_headers = None,
       init_body = Some (JsonText (bus2_partial_json data))\<rparr>)"
| "api_call (api_buses_delete i) =
     (''/api/buses/'' @ number_to_string i,
      \<lparr>init_method = Some DELETE, init_headers = None, init_body = None\<rparr>)"
| "api_call api_reservations_getAll = (''/api/reservations'', no_options)"
| "api_call (api_reservations_getByUserId userId) =
     (''/api/reservations/user/'' @ number_to_string userId, no_options)"
| "api_call (api_reservations_getByBusId busId) =
     (''/api/reservations/bus/'' @ number_to_string busId, no_options)"
| "api_call (api_reservations_create data) =
     (''/api/reservations'',
      \<lparr>init_method = Some POST, init_headers = None,
       init_body = Some (JsonText (reservation2_json data))\<rparr>)"
| "api_call (api_reservations_cancel i) =
     (''/api/reservations/'' @ number_to_string i @ ''/cancel'',
      \<lparr>init_method = Some PATCH, init_headers = None, init_body = None\<rparr>)"
| "api_call api_users_getAll = (''/api/users'', no_options)"
| "api_call (api_users_getById i) = (''/api/users/'' @ number_to_string i, no_options)"
| "api_call (api_users_create data) =
     (''/api/users'',
      \<lparr>init_method = Some POST, init_headers = None,
       init_body = Some (JsonText (user2_json data))\<rparr>)"
| "api_call (api_auth_login email pw) =
     (''/api/auth/login'',
      \<lparr>init_method = Some POST, init_headers = None,
       init_body = Some (JsonText (JObj [(''email'', JStr email), (''password'', JStr pw)]))\<rparr>)"
| "api_call api_auth_logout =
     (''/api/auth/logout'',
      \<lparr>init_method = Some POST, init_headers = None, init_body = None\<rparr>)"

definition api_request :: "string option \<Rightarrow> browser \<Rightarrow> api_op \<Rightarrow> request" where
  "api_request env st op = apiRequest_fetch env (fst (api_call op)) (snd (api_call op))"

definition api_run ::
  "string option \<Rightarrow> network \<Rightarrow> browser \<Rightarrow> api_op \<Rightarrow> browser \<times> (js_error + json)" where
  "api_run env net st op = apiRequest env net st (fst (api_call op)) (snd (api_call op))"

section \<open>Concrete scenarios\<close>

text \<open>Stores, responses and arguments used to run the model on explicit inputs.\<close>

definition dq :: "string \<Rightarrow> string" where
  "dq s = [char_of (34::nat)] @ s @ [char_of (34::nat)]"

definition offline :: network where
  "offline req = None"

definition session_browser :: browser where
  "session_browser =
     \<lparr>localStorage = [(''token'', ''abc''), (''user'', ''kim''), (''theme'', ''dark'')],
      location_href = ''/dashboard''\<rparr>"

definition unauthorized_response :: response where
  "unauthorized_response =
     \<lparr>resp_status = 401, resp_statusText = ''Unauthorized'',
      resp_content_type = Some ''application/json'',
      resp_text = ''{'' @ dq ''message'' @ '':'' @ dq ''Token expired'' @ ''}'',
      resp_json = Some (JObj [(''message'', JStr ''Token expired'')])\<rparr>"

definition not_found_response :: response where
  "not_found_response =
     \<lparr>resp_status = 404, resp_statusText = ''Not Found'',
      resp_content_type = Some ''application/json'',
      resp_text = ''{'' @ dq ''message'' @ '':'' @ dq ''No such bus'' @ ''}'',
      resp_json = Some (JObj [(''message'', JStr ''No such bus'')])\<rparr>"

definition anonymous_browser :: browser where
  "anonymous_browser = \<lparr>localStorage = [], location_href = ''/''\<rparr>"

definition sample_bus :: bus_data where
  "sample_bus =
     \<lparr>b_bus_number = ''B-12'', b_route = ''Campus - Station'', b_departure_time = ''08:30'',
      b_arrival_time = ''09:10'', b_destination = ''Station'', b_bus_type = Seat45,
      b_total_seats = 45\<rparr>"

text \<open>A whole \<open>Bus\<close> object, as the backend returns it, passed on to \<open>busAPI.create\<close>.\<close>

definition full_bus :: json where
  "full_bus =
     JObj [(''id'', JNum 7), (''bus_number'', JStr ''B-12''), (''route'', JStr ''Campus - Station''),
           (''departure_time'', JStr ''08:30''), (''arrival_time'', JStr ''09:10''),
           (''destination'', JStr ''Station''), (''bus_type'', JStr ''45-seat''),
           (''total_seats'', JNum 45), (''available_seats'', JNum 40),
           (''occupancy_rate'', JNum 11)]"

definition sample_route :: route_data where
  "sample_route =
     \<lparr>r_name = ''Line 1'', r_departure_location = ''Campus'', r_destination = ''Station''\<rparr>"

definition two_seats :: reservation_data where
  "two_seats =
     \<lparr>rc_bus_id = 1, rc_seat_numbers = [''A1'', ''A2''], rc_reservation_date = ''2024-01-15''\<rparr>"

definition empty_token_browser :: browser where
  "empty_token_browser = \<lparr>localStorage = [(''token'', [])], location_href = ''/''\<rparr>"



definition json_seq_response :: response where
  "json_seq_response =
     \<lparr>resp_status = 200, resp_statusText = ''OK'',
      resp_content_type = Some ''application/json-seq'',
      resp_text = [char_of (30::nat)] @ ''1'' @ [char_of (10::nat)] @
                  [char_of (30::nat)] @ ''2'' @ [char_of (10::nat)],
      resp_json = None\<rparr>"

definition plain_text_response :: response where
  "plain_text_response =
     \<lparr>resp_status = 200, resp_statusText = ''OK'',
      resp_content_type = Some ''text/plain'',
      resp_text = ''pong'',
      resp_json = None\<rparr>"

definition empty_list_response :: response where
  "empty_list_response =
     \<lparr>resp_status = 200, resp_statusText = ''OK'',
      resp_content_type = Some ''application/json'',
      resp_text = ''[]'',
      resp_json = Some (JArr [])\<rparr>"

definition wrong_login :: login_data where
  "wrong_login = \<lparr>username = ''kim'', password = ''wrong''\<rparr>"

definition no_content_response :: response where
  "no_content_response =
     \<lparr>resp_status = 204, resp_statusText = ''No Content'',
      resp_content_type = None, resp_text = [], resp_json = None\<rparr>"

definition reservation_record :: "int \<Rightarrow> string \<Rightarrow> json" where
  "reservation_record i seat =
     JObj [(''id'', JNum i), (''user_id'', JNum 3), (''bus_id'', JNum 1),
           (''seat_number'', JStr seat), (''reservation_date'', JStr ''2024-01-15''),
           (''departure_time'', JStr ''08:30''), (''status'', JStr ''confirmed'')]"

definition reservation_record_text :: "string \<Rightarrow> string \<Rightarrow> string" where
  "reservation_record_text i seat =
     ''{'' @ dq ''id'' @ '':'' @ i @ '','' @ dq ''user_id'' @ '':3,'' @ dq ''bus_id'' @ '':1,''
       @ dq ''seat_number'' @ '':'' @ dq seat @ '','' @ dq ''reservation_date'' @ '':''
       @ dq ''2024-01-15'' @ '','' @ dq ''departure_time'' @ '':'' @ dq ''08:30'' @ '',''
       @ dq ''status'' @ '':'' @ dq ''confirmed'' @ ''}''"

definition two_reservations_response :: response where
  "two_reservations_response =
     \<lparr>resp_status = 200, resp_statusText = ''OK'',
      resp_content_type = Some ''application/json'',
      resp_text = ''['' @ reservation_record_text ''10'' ''A1'' @ '',''
                    @ reservation_record_text ''11'' ''A2'' @ '']'',
      resp_json = Some (JArr [reservation_record 10 ''A1'', reservation_record 11 ''A2''])\<rparr>"

definition login_ok_json :: json where
  "login_ok_json =
     JObj [(''access_token'', JStr ''abc''), (''token_type'', JStr ''bearer''),
           (''user'', JObj [(''id'', JNum 3), (''username'', JStr ''kim''),
                            (''role'', JStr ''rider''), (''full_name'', JStr ''Kim'')])]"

definition login_ok_response :: response where
  "login_ok_response =
     \<lparr>resp_status = 200, resp_statusText = ''OK'',
      resp_content_type = Some ''application/json'',
      resp_text = ''{'' @ dq ''access_token'' @ '':'' @ dq ''abc'' @ '','' @ dq ''token_type''
                    @ '':'' @ dq ''bearer'' @ '','' @ dq ''user'' @ '':{'' @ dq ''id'' @ '':3,''
                    @ dq ''username'' @ '':'' @ dq ''kim'' @ '','' @ dq ''role'' @ '':''
                    @ dq ''rider'' @ '','' @ dq ''full_name'' @ '':'' @ dq ''Kim'' @ ''}}'',
      resp_json = Some login_ok_json\<rparr>"

definition kim_login :: login_data where
  "kim_login = \<lparr>username = ''kim'', password = ''secret''\<rparr>"

definition one_seat :: reservation2_data where
  "one_seat = \<lparr>r2_userId = 3, r2_busId = 1, r2_seatNumber = 5, r2_status = Confirmed\<rparr>"

section \<open>Auxiliary facts\<close>

lemma handleResponse_401:
  "resp_status r = 401 \<Longrightarrow>
     fst (handleResponse st r) =
       (removeItem ''user'' (removeItem ''token'' st))\<lparr>location_href := ''/login''\<rparr>"
  by (simp add: handleResponse_def resp_ok_def Let_def)

lemma handleResponse_other:
  "resp_status r \<noteq> 401 \<Longrightarrow> fst (handleResponse st r) = st"
  by (simp add: handleResponse_def Let_def split: option.splits)

lemma getItem_removeItem:
  "getItem (removeItem k st) k' = (if k' = k then None else getItem st k')"
  by (auto simp add: getItem_def removeItem_def AList.delete_conv')

lemma getItem_location [simp]: "getItem (st\<lparr>location_href := h\<rparr>) k = getItem st k"
  by (simp add: getItem_def)

lemma login_response_state: "fst (login_response st r) = st"
  by (simp add: login_response_def Let_def split: option.splits)

lemma fe_run_login:
  "fe_run env net st (authAPI_login d) =
     (case net (login_request env d) of
        None \<Rightarrow> (st, Inl TypeError)
      | Some r \<Rightarrow> login_response st r)"
  by (simp add: fe_run_def)

lemma fe_run_client:
  "uses_apiClient op \<Longrightarrow> fe_run env net st op = client_send net st (fe_request env st op)"
  by (simp add: fe_run_def)

lemma api_request_headers:
  "req_headers (api_request env st op) = [(''Content-Type'', ''application/json'')]"
  by (cases op) (simp_all add: api_request_def apiRequest_fetch_def spread_def no_options_def)

lemma apiRequest_state: "fst (apiRequest env net st endpoint options) = st"
  by (simp add: apiRequest_def split: option.splits)

lemma apiRequest_result:
  "snd (apiRequest env net st1 endpoint options) = snd (apiRequest env net st2 endpoint options)"
  by (simp add: apiRequest_def split: option.splits)

lemmas apiClient_defs = apiClient_get_def apiClient_post_def apiClient_put_def apiClient_delete_def

lemma apiClient_headers:
  "req_headers (apiClient_get env st endpoint) = getAuthHeaders st"
  "req_headers (apiClient_post env st endpoint data) = getAuthHeaders st"
  "req_headers (apiClient_put env st endpoint data) = getAuthHeaders st"
  "req_headers (apiClient_delete env st endpoint) = getAuthHeaders st"
  by (simp_all add: apiClient_defs)

lemma apiClient_body:
  "req_body (apiClient_post env st endpoint (Some (JObj kvs))) = Some (JsonText (JObj kvs))"
  "req_body (apiClient_put env st endpoint (Some (JObj kvs))) = Some (JsonText (JObj kvs))"
  by (simp_all add: apiClient_defs stringify_body_def)

lemma apiClient_body_keys:
  "body_keys (apiClient_post env st endpoint (Some (JObj kvs))) = map fst kvs"
  by (simp add: body_keys_def apiClient_body)

lemma fe_request_headers:
  "uses_apiClient op \<Longrightarrow> req_headers (fe_request env st op) = getAuthHeaders st"
  by (cases op) (simp_all add: apiClient_headers)

lemma getAuthHeaders_token:
  "getItem st ''token'' = Some token \<Longrightarrow> token \<noteq> [] \<Longrightarrow>
     getAuthHeaders st =
       [(''Content-Type'', ''application/json''), (''Authorization'', ''Bearer '' @ token)]"
  by (simp add: getAuthHeaders_def defaultHeaders_def spread_def)

lemma getAuthHeaders_no_token:
  "getItem st ''token'' = None \<or> getItem st ''token'' = Some [] \<Longrightarrow>
     getAuthHeaders st = [(''Content-Type'', ''application/json'')]"
  by (auto simp add: getAuthHeaders_def defaultHeaders_def)

lemma handleResponse_raises:
  "\<not> resp_ok r \<Longrightarrow> \<exists>e. snd (handleResponse st r) = Inl e"
  by (simp add: handleResponse_def Let_def)

lemma handleResponse_error:
  "\<not> resp_ok r \<Longrightarrow>
     snd (handleResponse st r) =
       Inl (message_or_status
              (case resp_json r of
                 None \<Rightarrow> JObj [(''message'', JStr ''Network error'')]
               | Some e \<Rightarrow> e)
              (resp_status r))"
  by (simp add: handleResponse_def Let_def)

lemma login_response_raises:
  "\<not> resp_ok r \<Longrightarrow> \<exists>e. snd (login_response st r) = Inl e"
  by (simp add: login_response_def Let_def)

lemma not_ok_401: "resp_status r = 401 \<Longrightarrow> \<not> resp_ok r"
  by (simp add: resp_ok_def)

lemma apiRequest_error:
  "net (apiRequest_fetch env endpoint options) = Some r \<Longrightarrow> \<not> resp_ok r \<Longrightarrow>
     snd (apiRequest env net st endpoint options) =
       Inl (ApiError (resp_status r) (''API request failed: '' @ resp_statusText r))"
  by (simp add: apiRequest_def)




lemma unauthorized_response_facts:
  "\<not> resp_ok unauthorized_response"
  "resp_status unauthorized_response = 401"
  "resp_statusText unauthorized_response = ''Unauthorized''"
  "resp_json unauthorized_response = Some (JObj [(''message'', JStr ''Token expired'')])"
  by (simp_all add: unauthorized_response_def resp_ok_def)

lemma session_browser_facts:
  "getItem session_browser ''token'' = Some ''abc''"
  "getItem session_browser ''user'' = Some ''kim''"
  "getItem session_browser ''theme'' = Some ''dark''"
  "location_href session_browser = ''/dashboard''"
  by (simp_all add: session_browser_def getItem_def)

lemma json_seq_response_facts:
  "resp_ok json_seq_response"
  "resp_content_type json_seq_response = Some ''application/json-seq''"
  "resp_json json_seq_response = None"
  by (simp_all add: json_seq_response_def resp_ok_def)

lemma plain_text_response_facts:
  "resp_ok plain_text_response"
  "resp_content_type plain_text_response = Some ''text/plain''"
  "resp_json plain_text_response = None"
  "resp_text plain_text_response = ''pong''"
  by (simp_all add: plain_text_response_def resp_ok_def)

lemma empty_list_response_facts:
  "resp_ok empty_list_response"
  "resp_content_type empty_list_response = Some ''application/json''"
  "resp_json empty_list_response = Some (JArr [])"
  by (simp_all add: empty_list_response_def resp_ok_def)

lemma handleResponse_ok_json:
  "resp_ok r \<Longrightarrow> resp_content_type r = Some ct \<Longrightarrow> str_includes ct ''application/json'' \<Longrightarrow>
     handleResponse st r =
       (case resp_json r of None \<Rightarrow> (st, Inl SyntaxError) | Some j \<Rightarrow> (st, Inr j))"
  by (cases ct) (simp_all add: handleResponse_def)

lemma handleResponse_ok_text:
  "resp_ok r \<Longrightarrow>
   resp_content_type r = None \<or>
     (\<exists>ct. resp_content_type r = Some ct \<and> \<not> str_includes ct ''application/json'') \<Longrightarrow>
     handleResponse st r = (st, Inr (JStr (resp_text r)))"
  by (auto simp add: handleResponse_def)

lemma apiRequest_ok:
  "net (apiRequest_fetch env endpoint options) = Some r \<Longrightarrow> resp_ok r \<Longrightarrow>
     apiRequest env net st endpoint options =
       (case resp_json r of None \<Rightarrow> (st, Inl SyntaxError) | Some j \<Rightarrow> (st, Inr j))"
  by (simp add: apiRequest_def)

lemma no_content_response_facts:
  "resp_ok no_content_response"
  "resp_content_type no_content_response = None"
  "resp_json no_content_response = None"
  "resp_text no_content_response = []"
  by (simp_all add: no_content_response_def resp_ok_def)

lemma two_reservations_response_facts:
  "resp_ok two_reservations_response"
  "resp_content_type two_reservations_response = Some ''application/json''"
  "resp_json two_reservations_response =
     Some (JArr [reservation_record 10 ''A1'', reservation_record 11 ''A2''])"
  by (simp_all add: two_reservations_response_def resp_ok_def)

lemma login_ok_response_facts:
  "resp_ok login_ok_response"
  "resp_content_type login_ok_response = Some ''application/json''"
  "resp_json login_ok_response = Some login_ok_json"
  by (simp_all add: login_ok_response_def resp_ok_def)

section \<open>Errors raised for responses outside 200-299\<close>




section \<open>The 401 interceptor\<close>

text \<open>
  C2 does not hold for every operation: \<open>authAPI.login\<close> bypasses \<open>apiClient\<close>, and the
  second module has no interceptor. After a 401 on either, the store still holds the token
  and no navigation has been requested.
\<close>

theorem C2_counterexample:
  "fst (fe_run None (always unauthorized_response) session_browser (authAPI_login wrong_login)) =
     session_browser
   \<and> getItem session_browser ''token'' = Some ''abc''
   \<and> location_href session_browser = ''/dashboard''
   \<and> fst (api_run None (always unauthorized_response) session_browser api_reservations_getAll) =
     session_browser"
  by (simp add: fe_run_login always_def login_response_state session_browser_facts
        api_run_def apiRequest_state)

text \<open>
  C2, amended. For every frontend operation that goes through \<open>apiClient\<close> (all but
  \<open>authAPI.login\<close>), a 401 response leaves the store with neither \<open>token\<close> nor \<open>user\<close>, sets
  the location to \<open>/login\<close>, and the caller receives a raised error. \<open>authAPI.login\<close> and
  every operation of the second module leave the browser state as it was on a 401 and
  raise the error to the caller.
\<close>

theorem C2_unauthorized:
  "(uses_apiClient op \<and> net (fe_request env st op) = Some r \<and> resp_status r = 401 \<longrightarrow>
      getItem (fst (fe_run env net st op)) ''token'' = None
      \<and> getItem (fst (fe_run env net st op)) ''user'' = None
      \<and> location_href (fst (fe_run env net st op)) = ''/login''
      \<and> (\<exists>e. snd (fe_run env net st op) = Inl e))
   \<and> (net (fe_request env st (authAPI_login d)) = Some r \<and> resp_status r = 401 \<longrightarrow>
        fst (fe_run env net st (authAPI_login d)) = st
        \<and> (\<exists>e. snd (fe_run env net st (authAPI_login d)) = Inl e))
   \<and> (net (api_request env st op2) = Some r \<and> resp_status r = 401 \<longrightarrow>
        fst (api_run env net st op2) = st
        \<and> snd (api_run env net st op2) =
            Inl (ApiError 401 (''API request failed: '' @ resp_statusText r)))"
proof -
  have a: "getItem (fst (fe_run env net st op)) ''token'' = None
      \<and> getItem (fst (fe_run env net st op)) ''user'' = None
      \<and> location_href (fst (fe_run env net st op)) = ''/login''
      \<and> (\<exists>e. snd (fe_run env net st op) = Inl e)"
    if "uses_apiClient op" "net (fe_request env st op) = Some r" "resp_status r = 401"
  proof -
    from that have run: "fe_run env net st op = handleResponse st r"
      by (simp add: fe_run_client client_send_def)
    from that(3) have "\<not> resp_ok r" by (rule not_ok_401)
    then have "\<exists>e. snd (handleResponse st r) = Inl e" by (rule handleResponse_raises)
    with that(3) run show ?thesis
      by (simp add: handleResponse_401 getItem_removeItem)
  qed
  have b: "fst (fe_run env net st (authAPI_login d)) = st
        \<and> (\<exists>e. snd (fe_run env net st (authAPI_login d)) = Inl e)"
    if "net (fe_request env st (authAPI_login d)) = Some r" "resp_status r = 401"
  proof -
    from that(2) have "\<not> resp_ok r" by (rule not_ok_401)
    then have "\<exists>e. snd (login_response st r) = Inl e" by (rule login_response_raises)
    with that(1) show ?thesis
      by (simp add: fe_run_login login_response_state)
  qed
  have c: "fst (api_run env net st op2) = st
        \<and> snd (api_run env net st op2) =
            Inl (ApiError 401 (''API request failed: '' @ resp_statusText r))"
    if "net (api_request env st op2) = Some r" "resp_status r = 401"
  proof -
    from that(2) have "\<not> resp_ok r" by (rule not_ok_401)
    with that show ?thesis
      by (simp add: api_run_def api_request_def apiRequest_state apiRequest_error)
  qed
  from a b c show ?thesis by blast
qed

theorem C2_unauthorized_witness:
  "getItem (fst (fe_run None (always unauthorized_response) session_browser
       reservationAPI_getAll)) ''token'' = None
   \<and> getItem (fst (fe_run None (always unauthorized_response) session_browser
       reservationAPI_getAll)) ''user'' = None
   \<and> location_href (fst (fe_run None (always unauthorized_response) session_browser
       reservationAPI_getAll)) = ''/login''
   \<and> snd (fe_run None (always unauthorized_response) session_browser reservationAPI_getAll) =
       Inl (Error ''Token expired'')
   \<and> fst (fe_run None (always unauthorized_response) session_browser
       (authAPI_login wrong_login)) = session_browser
   \<and> snd (api_run None (always unauthorized_response) session_browser
       api_reservations_getAll) = Inl (ApiError 401 ''API request failed: Unauthorized'')"
proof -
  have "snd (fe_run None (always unauthorized_response) session_browser reservationAPI_getAll) =
       Inl (Error ''Token expired'')"
    by (simp add: fe_run_def client_send_def always_def handleResponse_error
          unauthorized_response_facts)
  with C2_unauthorized [of reservationAPI_getAll "always unauthorized_response" None
          session_browser unauthorized_response wrong_login api_reservations_getAll]
  show ?thesis
    by (simp add: always_def unauthorized_response_facts)
qed

section \<open>The bearer header\<close>

text \<open>
  C3 fails in two places: a stored token that is the empty string is treated as absent by
  \<open>getAuthHeaders\<close>, and the second module never attaches the header although a token
  is stored.
\<close>

theorem C3_counterexample:
  "getItem empty_token_browser ''token'' = Some []
   \<and> map_of (req_headers (fe_request None empty_token_browser (busAPI_getAll None)))
        ''Authorization'' = None
   \<and> getItem session_browser ''token'' = Some ''abc''
   \<and> map_of (req_headers (api_request None session_browser api_buses_getAll))
        ''Authorization'' = None"
  by (simp add: getItem_def empty_token_browser_def session_browser_def apiClient_headers
        getAuthHeaders_def defaultHeaders_def api_request_headers)

text \<open>
  C3, amended. For every frontend operation that goes through \<open>apiClient\<close>: while the
  store holds a non-empty token, the headers of the request are exactly
  \<open>Content-Type: application/json\<close> and \<open>Authorization: Bearer <token>\<close>; while it holds no
  token or the empty string, they are exactly \<open>Content-Type: application/json\<close>. In
  particular \<open>busAPI.getAll\<close> carries the bearer header of a stored non-empty token. No
  request of the second module carries an \<open>Authorization\<close> header.
\<close>

theorem C3_bearer_header:
  "(uses_apiClient op \<and> getItem st ''token'' = Some token \<and> token \<noteq> [] \<longrightarrow>
      req_headers (fe_request env st op) =
        [(''Content-Type'', ''application/json''), (''Authorization'', ''Bearer '' @ token)])
   \<and> (uses_apiClient op \<and> (getItem st ''token'' = None \<or> getItem st ''token'' = Some []) \<longrightarrow>
        req_headers (fe_request env st op) = [(''Content-Type'', ''application/json'')])
   \<and> (getItem st ''token'' = Some token \<and> token \<noteq> [] \<longrightarrow>
        map_of (req_headers (fe_request env st (busAPI_getAll reservationDate)))
          ''Authorization'' = Some (''Bearer '' @ token))
   \<and> map_of (req_headers (api_request env st op2)) ''Authorization'' = None"
proof -
  have a: "req_headers (fe_request env st op) =
        [(''Content-Type'', ''application/json''), (''Authorization'', ''Bearer '' @ token)]"
    if "uses_apiClient op" "getItem st ''token'' = Some token" "token \<noteq> []"
    using that by (simp add: fe_request_headers getAuthHeaders_token)
  have b: "req_headers (fe_request env st op) = [(''Content-Type'', ''application/json'')]"
    if "uses_apiClient op" "getItem st ''token'' = None \<or> getItem st ''token'' = Some []"
    using that by (simp add: fe_request_headers getAuthHeaders_no_token)
  have c: "map_of (req_headers (fe_request env st (busAPI_getAll reservationDate)))
          ''Authorization'' = Some (''Bearer '' @ token)"
    if "getItem st ''token'' = Some token" "token \<noteq> []"
    using that by (simp add: apiClient_headers getAuthHeaders_token)
  have d: "map_of (req_headers (api_request env st op2)) ''Authorization'' = None"
    by (simp add: api_request_headers)
  from a b c d show ?thesis by blast
qed

theorem C3_bearer_header_witness:
  "getItem session_browser ''token'' = Some ''abc''
   \<and> req_headers (fe_request None session_browser (busAPI_getAll (Some ''2024-01-15''))) =
       [(''Content-Type'', ''application/json''), (''Authorization'', ''Bearer abc'')]
   \<and> getItem anonymous_browser ''token'' = None
   \<and> req_headers (fe_request None anonymous_browser (busAPI_getAll (Some ''2024-01-15''))) =
       [(''Content-Type'', ''application/json'')]
   \<and> getItem empty_token_browser ''token'' = Some []
   \<and> req_headers (fe_request None empty_token_browser reservationAPI_getAll) =
       [(''Content-Type'', ''application/json'')]"
  using C3_bearer_header [of "busAPI_getAll (Some ''2024-01-15'')" session_browser "''abc''" None]
        C3_bearer_header [of "busAPI_getAll (Some ''2024-01-15'')" anonymous_browser "''abc''" None]
        C3_bearer_header [of reservationAPI_getAll empty_token_browser "''abc''" None]
  by (simp add: getItem_def session_browser_def anonymous_browser_def empty_token_browser_def)

section \<open>Successful responses\<close>

text \<open>
  C4 fails for a content type that merely contains \<open>application/json\<close>, such as
  \<open>application/json-seq\<close>: the frontend client decodes it as JSON and raises the parse error
  instead of returning the text. The second module decodes every successful response as
  JSON, so a \<open>text/plain\<close> body is not returned as text either.
\<close>

theorem C4_counterexample:
  "snd (handleResponse session_browser json_seq_response) = Inl SyntaxError
   \<and> snd (handleResponse session_browser json_seq_response) \<noteq>
       Inr (JStr (resp_text json_seq_response))
   \<and> snd (api_run None (always plain_text_response) session_browser api_buses_getAll) =
       Inl SyntaxError
   \<and> snd (api_run None (always plain_text_response) session_browser api_buses_getAll) \<noteq>
       Inr (JStr ''pong'')"
proof -
  have "handleResponse session_browser json_seq_response = (session_browser, Inl SyntaxError)"
    using handleResponse_ok_json [of json_seq_response "''application/json-seq''" session_browser]
    by (simp add: json_seq_response_facts)
  moreover have "api_run None (always plain_text_response) session_browser api_buses_getAll =
      (session_browser, Inl SyntaxError)"
    by (simp add: api_run_def apiRequest_ok [of _ _ _ _ plain_text_response] always_def
          plain_text_response_facts)
  ultimately show ?thesis by simp
qed

text \<open>
  C4, amended. For every response with a status in 200-299: when the content-type header
  is present and contains \<open>application/json\<close>, the frontend client returns the decoded JSON
  body unchanged, or raises the parse error when the body does not decode; when the header
  is absent or does not contain \<open>application/json\<close>, it returns the raw response text. The
  second module returns the decoded JSON body whatever the content type, and raises the
  parse error when the body does not decode. Neither changes the browser state.
\<close>

theorem C4_success_body:
  "(resp_ok r \<and> resp_content_type r = Some ct \<and> str_includes ct ''application/json''
      \<and> resp_json r = Some j \<longrightarrow> handleResponse st r = (st, Inr j))
   \<and> (resp_ok r \<and> resp_content_type r = Some ct \<and> str_includes ct ''application/json''
      \<and> resp_json r = None \<longrightarrow> handleResponse st r = (st, Inl SyntaxError))
   \<and> (resp_ok r \<and> resp_content_type r = Some ct \<and> \<not> str_includes ct ''application/json''
      \<longrightarrow> handleResponse st r = (st, Inr (JStr (resp_text r))))
   \<and> (resp_ok r \<and> resp_content_type r = None
      \<longrightarrow> handleResponse st r = (st, Inr (JStr (resp_text r))))
   \<and> (net (apiRequest_fetch env endpoint options) = Some r \<and> resp_ok r \<and> resp_json r = Some j
      \<longrightarrow> apiRequest env net st endpoint options = (st, Inr j))
   \<and> (net (apiRequest_fetch env endpoint options) = Some r \<and> resp_ok r \<and> resp_json r = None
      \<longrightarrow> apiRequest env net st endpoint options = (st, Inl SyntaxError))"
proof -
  have a: "handleResponse st r = (st, Inr j)"
    if "resp_ok r" "resp_content_type r = Some ct" "str_includes ct ''application/json''"
       "resp_json r = Some j"
    using that by (simp add: handleResponse_ok_json)
  have b: "handleResponse st r = (st, Inl SyntaxError)"
    if "resp_ok r" "resp_content_type r = Some ct" "str_includes ct ''application/json''"
       "resp_json r = None"
    using that by (simp add: handleResponse_ok_json)
  have c: "handleResponse st r = (st, Inr (JStr (resp_text r)))"
    if "resp_ok r" "resp_content_type r = Some ct" "\<not> str_includes ct ''application/json''"
    using that by (simp add: handleResponse_ok_text)
  have d: "handleResponse st r = (st, Inr (JStr (resp_text r)))"
    if "resp_ok r" "resp_content_type r = None"
    using that by (simp add: handleResponse_ok_text)
  have e: "apiRequest env net st endpoint options = (st, Inr j)"
    if "net (apiRequest_fetch env endpoint options) = Some r" "resp_ok r" "resp_json r = Some j"
    using that by (simp add: apiRequest_ok)
  have f: "apiRequest env net st endpoint options = (st, Inl SyntaxError)"
    if "net (apiRequest_fetch env endpoint options) = Some r" "resp_ok r" "resp_json r = None"
    using that by (simp add: apiRequest_ok)
  from a b c d e f show ?thesis by blast
qed

theorem C4_success_body_witness:
  "handleResponse session_browser empty_list_response = (session_browser, Inr (JArr []))
   \<and> handleResponse session_browser json_seq_response = (session_browser, Inl SyntaxError)
   \<and> handleResponse session_browser plain_text_response = (session_browser, Inr (JStr ''pong''))
   \<and> handleResponse session_browser no_content_response = (session_browser, Inr (JStr []))
   \<and> apiRequest None (always empty_list_response) session_browser ''/api/buses'' no_options =
       (session_browser, Inr (JArr []))
   \<and> apiRequest None (always plain_text_response) session_browser ''/api/buses'' no_options =
       (session_browser, Inl SyntaxError)"
proof -
  have "handleResponse session_browser empty_list_response = (session_browser, Inr (JArr []))"
    and "apiRequest None (always empty_list_response) session_browser ''/api/buses'' no_options =
       (session_browser, Inr (JArr []))"
    using C4_success_body [of empty_list_response "''application/json''" "JArr []"
            session_browser "always empty_list_response" None "''/api/buses''" no_options]
    by (simp_all add: empty_list_response_facts always_def)
  moreover
  have "handleResponse session_browser json_seq_response = (session_browser, Inl SyntaxError)"
    using C4_success_body [of json_seq_response "''application/json-seq''" "JArr []"
            session_browser "always json_seq_response" None "''/api/buses''" no_options]
    by (simp add: json_seq_response_facts)
  moreover
  have "handleResponse session_browser plain_text_response =
          (session_browser, Inr (JStr ''pong''))"
    and "apiRequest None (always plain_text_response) session_browser ''/api/buses'' no_options =
       (session_browser, Inl SyntaxError)"
    using C4_success_body [of plain_text_response "''text/plain''" "JArr []"
            session_browser "always plain_text_response" None "''/api/buses''" no_options]
    by (simp_all add: plain_text_response_facts always_def)
  moreover
  have "handleResponse session_browser no_content_response = (session_browser, Inr (JStr []))"
    using C4_success_body [of no_content_response "''text/plain''" "JArr []"
            session_browser "always no_content_response" None "''/api/buses''" no_options]
    by (simp add: no_content_response_facts)
  ultimately show ?thesis by simp
qed

section \<open>Bodies of the create operations\<close>

text \<open>
  C5 does not hold for every object a caller can pass: the create operations strip nothing.
  A whole \<open>Bus\<close> object is accepted by \<open>busAPI.create\<close>, and its identifier and computed
  availability fields are sent in the body.
\<close>

theorem C5_counterexample:
  "req_body (fe_request None session_browser (busAPI_create full_bus)) = Some (JsonText full_bus)
   \<and> ''id'' \<in> set (body_keys (fe_request None session_browser (busAPI_create full_bus)))
   \<and> ''available_seats'' \<in>
        set (body_keys (fe_request None session_browser (busAPI_create full_bus)))
   \<and> ''occupancy_rate'' \<in>
        set (body_keys (fe_request None session_browser (busAPI_create full_bus)))"
  by (simp add: full_bus_def apiClient_body apiClient_body_keys)

text \<open>
  C5, amended. For bus create, route create and reservation create of the frontend module,
  the outgoing body is the JSON text of exactly the object the caller supplied, unchanged:
  its properties are the caller's, none added and none removed. When the caller supplies
  just the fields of the declared parameter type, the body holds those fields with the
  caller's values and has no identifier, no computed availability field
  (\<open>available_seats\<close>, \<open>occupancy_rate\<close>), no active flag and no creation timestamp.
\<close>

theorem C5_create_body:
  "req_body (fe_request env st (busAPI_create (JObj kvs))) = Some (JsonText (JObj kvs))
   \<and> req_body (fe_request env st (routeAPI_create (JObj kvs))) = Some (JsonText (JObj kvs))
   \<and> req_body (fe_request env st (reservationAPI_create (JObj kvs))) =
       Some (JsonText (JObj kvs))
   \<and> body_keys (fe_request env st (busAPI_create (JObj kvs))) = map fst kvs
   \<and> body_keys (fe_request env st (routeAPI_create (JObj kvs))) = map fst kvs
   \<and> body_keys (fe_request env st (reservationAPI_create (JObj kvs))) = map fst kvs
   \<and> req_body (fe_request env st (busAPI_create (bus_json b))) =
       Some (JsonText (JObj
         [(''bus_number'', JStr (b_bus_number b)), (''route'', JStr (b_route b)),
          (''departure_time'', JStr (b_departure_time b)),
          (''arrival_time'', JStr (b_arrival_time b)),
          (''destination'', JStr (b_destination b)),
          (''bus_type'', JStr (bus_type_string (b_bus_type b))),
          (''total_seats'', JNum (b_total_seats b))]))
   \<and> ''id'' \<notin> set (body_keys (fe_request env st (busAPI_create (bus_json b))))
   \<and> ''available_seats'' \<notin> set (body_keys (fe_request env st (busAPI_create (bus_json b))))
   \<and> ''occupancy_rate'' \<notin> set (body_keys (fe_request env st (busAPI_create (bus_json b))))
   \<and> req_body (fe_request env st (routeAPI_create (route_json r))) =
       Some (JsonText (JObj
         [(''name'', JStr (r_name r)),
          (''departure_location'', JStr (r_departure_location r)),
          (''destination'', JStr (r_destination r))]))
   \<and> ''id'' \<notin> set (body_keys (fe_request env st (routeAPI_create (route_json r))))
   \<and> ''is_active'' \<notin> set (body_keys (fe_request env st (routeAPI_create (route_json r))))
   \<and> ''created_at'' \<notin> set (body_keys (fe_request env st (routeAPI_create (route_json r))))
   \<and> req_body (fe_request env st (reservationAPI_create (reservation_json v))) =
       Some (JsonText (JObj
         [(''bus_id'', JNum (rc_bus_id v)),
          (''seat_numbers'', JArr (map JStr (rc_seat_numbers v))),
          (''reservation_date'', JStr (rc_reservation_date v))]))
   \<and> ''id'' \<notin> set (body_keys (fe_request env st (reservationAPI_create (reservation_json v))))"
proof -
  have general:
    "req_body (fe_request env st (busAPI_create (JObj kvs))) = Some (JsonText (JObj kvs))
     \<and> req_body (fe_request env st (routeAPI_create (JObj kvs))) = Some (JsonText (JObj kvs))
     \<and> req_body (fe_request env st (reservationAPI_create (JObj kvs))) =
         Some (JsonText (JObj kvs))
     \<and> body_keys (fe_request env st (busAPI_create (JObj kvs))) = map fst kvs
     \<and> body_keys (fe_request env st (routeAPI_create (JObj kvs))) = map fst kvs
     \<and> body_keys (fe_request env st (reservationAPI_create (JObj kvs))) = map fst kvs"
    by (simp add: apiClient_body apiClient_body_keys)
  have bus:
    "req_body (fe_request env st (busAPI_create (bus_json b))) =
       Some (JsonText (JObj
         [(''bus_number'', JStr (b_bus_number b)), (''route'', JStr (b_route b)),
          (''departure_time'', JStr (b_departure_time b)),
          (''arrival_time'', JStr (b_arrival_time b)),
          (''destination'', JStr (b_destination b)),
          (''bus_type'', JStr (bus_type_string (b_bus_type b))),
          (''total_seats'', JNum (b_total_seats b))]))
     \<and> ''id'' \<notin> set (body_keys (fe_request env st (busAPI_create (bus_json b))))
     \<and> ''available_seats'' \<notin> set (body_keys (fe_request env st (busAPI_create (bus_json b))))
     \<and> ''occupancy_rate'' \<notin> set (body_keys (fe_request env st (busAPI_create (bus_json b))))"
    by (simp add: bus_json_def apiClient_body apiClient_body_keys)
  have route:
    "req_body (fe_request env st (routeAPI_create (route_json r))) =
       Some (JsonText (JObj
         [(''name'', JStr (r_name r)),
          (''departure_location'', JStr (r_departure_location r)),
          (''destination'', JStr (r_destination r))]))
     \<and> ''id'' \<notin> set (body_keys (fe_request env st (routeAPI_create (route_json r))))
     \<and> ''is_active'' \<notin> set (body_keys (fe_request env st (routeAPI_create (route_json r))))
     \<and> ''created_at'' \<notin> set (body_keys (fe_request env st (routeAPI_create (route_json r))))"
    by (simp add: route_json_def apiClient_body apiClient_body_keys)
  have reservation:
    "req_body (fe_request env st (reservationAPI_create (reservation_json v))) =
       Some (JsonText (JObj
         [(''bus_id'', JNum (rc_bus_id v)),
          (''seat_numbers'', JArr (map JStr (rc_seat_numbers v))),
          (''reservation_date'', JStr (rc_reservation_date v))]))
     \<and> ''id'' \<notin> set (body_keys (fe_request env st (reservationAPI_create (reservation_json v))))"
    by (simp add: reservation_json_def apiClient_body apiClient_body_keys)
  from general bus route reservation show ?thesis by simp
qed

theorem C5_create_body_witness:
  "req_body (fe_request None session_browser (busAPI_create full_bus)) = Some (JsonText full_bus)
   \<and> req_body (fe_request None session_browser (busAPI_create (bus_json sample_bus))) =
     Some (JsonText (JObj
       [(''bus_number'', JStr ''B-12''), (''route'', JStr ''Campus - Station''),
        (''departure_time'', JStr ''08:30''), (''arrival_time'', JStr ''09:10''),
        (''destination'', JStr ''Station''), (''bus_type'', JStr ''45-seat''),
        (''total_seats'', JNum 45)]))
   \<and> req_body (fe_request None session_browser (routeAPI_create (route_json sample_route))) =
     Some (JsonText (JObj
       [(''name'', JStr ''Line 1''), (''departure_location'', JStr ''Campus''),
        (''destination'', JStr ''Station'')]))
   \<and> req_body (fe_request None session_browser
         (reservationAPI_create (reservation_json two_seats))) =
     Some (JsonText (JObj
       [(''bus_id'', JNum 1), (''seat_numbers'', JArr [JStr ''A1'', JStr ''A2'']),
        (''reservation_date'', JStr ''2024-01-15'')]))"
proof -
  have "req_body (fe_request None session_browser (busAPI_create full_bus)) =
          Some (JsonText full_bus)"
    using C5_create_body [of None session_browser
            "[(''id'', JNum 7), (''bus_number'', JStr ''B-12''),
              (''route'', JStr ''Campus - Station''), (''departure_time'', JStr ''08:30''),
              (''arrival_time'', JStr ''09:10''), (''destination'', JStr ''Station''),
              (''bus_type'', JStr ''45-seat''), (''total_seats'', JNum 45),
              (''available_seats'', JNum 40), (''occupancy_rate'', JNum 11)]"
            sample_bus sample_route two_seats]
    by (simp add: full_bus_def)
  moreover
  have "req_body (fe_request None session_browser (busAPI_create (bus_json sample_bus))) =
     Some (JsonText (JObj
       [(''bus_number'', JStr ''B-12''), (''route'', JStr ''Campus - Station''),
        (''departure_time'', JStr ''08:30''), (''arrival_time'', JStr ''09:10''),
        (''destination'', JStr ''Station''), (''bus_type'', JStr ''45-seat''),
        (''total_seats'', JNum 45)]))"
    and "req_body (fe_request None session_browser (routeAPI_create (route_json sample_route))) =
     Some (JsonText (JObj
       [(''name'', JStr ''Line 1''), (''departure_location'', JStr ''Campus''),
        (''destination'', JStr ''Station'')]))"
    and "req_body (fe_request None session_browser
         (reservationAPI_create (reservation_json two_seats))) =
     Some (JsonText (JObj
       [(''bus_id'', JNum 1), (''seat_numbers'', JArr [JStr ''A1'', JStr ''A2'']),
        (''reservation_date'', JStr ''2024-01-15'')]))"
    using C5_create_body [of None session_browser "[]" sample_bus sample_route two_seats]
    by (simp_all add: sample_bus_def sample_route_def two_seats_def)
  ultimately show ?thesis by simp
qed

section \<open>Creating reservations\<close>

text \<open>
  C6 fails in two places: the second module posts to \<open>/api/reservations\<close>, without the
  trailing slash, and the frontend client returns whatever the backend answers, so a
  request for two seats answered with an empty list returns an empty list.
\<close>

theorem C6_counterexample:
  "req_url (api_request None session_browser (api_reservations_create one_seat)) =
     ''http://localhost:8000/api/reservations''
   \<and> req_url (api_request None session_browser (api_reservations_create one_seat)) \<noteq>
     ''http://localhost:8000/api/reservations/''
   \<and> rc_seat_numbers two_seats = [''A1'', ''A2'']
   \<and> snd (fe_run None (always empty_list_response) session_browser
         (reservationAPI_create (reservation_json two_seats))) = Inr (JArr [])"
proof -
  have "handleResponse session_browser empty_list_response = (session_browser, Inr (JArr []))"
    using handleResponse_ok_json [of empty_list_response "''application/json''" session_browser]
    by (simp add: empty_list_response_facts)
  then show ?thesis
    by (simp add: api_request_def apiRequest_fetch_def API_BASE_URL_def two_seats_def
          fe_run_def client_send_def always_def)
qed

text \<open>
  C6, amended. \<open>reservationAPI.create\<close> of the frontend module POSTs to
  \<open>/api/reservations/\<close> a JSON body with the bus id, the seat list and the reservation date,
  and on a 200-299 JSON response returns the decoded body unchanged; how many records it
  holds and their status is the backend's answer, which the client does not check. The
  second module's \<open>api.reservations.create\<close> POSTs a single-seat record to
  \<open>/api/reservations\<close> and returns the decoded body of a 200-299 response.
\<close>

theorem C6_reservation_create:
  "req_method (fe_request env st (reservationAPI_create (reservation_json d))) = POST
   \<and> req_url (fe_request env st (reservationAPI_create (reservation_json d))) =
       API_BASE_URL env @ ''/api/reservations/''
   \<and> req_body (fe_request env st (reservationAPI_create (reservation_json d))) =
       Some (JsonText (JObj [(''bus_id'', JNum (rc_bus_id d)),
                             (''seat_numbers'', JArr (map JStr (rc_seat_numbers d))),
                             (''reservation_date'', JStr (rc_reservation_date d))]))
   \<and> (net (fe_request env st (reservationAPI_create (reservation_json d))) = Some r \<and> resp_ok r
        \<and> resp_content_type r = Some ct \<and> str_includes ct ''application/json''
        \<and> resp_json r = Some j \<longrightarrow>
        fe_run env net st (reservationAPI_create (reservation_json d)) = (st, Inr j))
   \<and> req_method (api_request env st (api_reservations_create d2)) = POST
   \<and> req_url (api_request env st (api_reservations_create d2)) =
       API_BASE_URL env @ ''/api/reservations''
   \<and> req_body (api_request env st (api_reservations_create d2)) =
       Some (JsonText (JObj [(''userId'', JNum (r2_userId d2)), (''busId'', JNum (r2_busId d2)),
                             (''seatNumber'', JNum (r2_seatNumber d2)),
                             (''status'', JStr (status_string (r2_status d2)))]))
   \<and> (net (api_request env st (api_reservations_create d2)) = Some r \<and> resp_ok r
        \<and> resp_json r = Some j \<longrightarrow>
        api_run env net st (api_reservations_create d2) = (st, Inr j))"
proof -
  have a: "fe_run env net st (reservationAPI_create (reservation_json d)) = (st, Inr j)"
    if "net (fe_request env st (reservationAPI_create (reservation_json d))) = Some r" "resp_ok r"
       "resp_content_type r = Some ct" "str_includes ct ''application/json''"
       "resp_json r = Some j"
    using that by (simp add: fe_run_def client_send_def handleResponse_ok_json)
  have b: "api_run env net st (api_reservations_create d2) = (st, Inr j)"
    if "net (api_request env st (api_reservations_create d2)) = Some r" "resp_ok r"
       "resp_json r = Some j"
    using that by (simp add: api_run_def api_request_def apiRequest_ok)
  have c: "req_method (fe_request env st (reservationAPI_create (reservation_json d))) = POST
   \<and> req_url (fe_request env st (reservationAPI_create (reservation_json d))) =
       API_BASE_URL env @ ''/api/reservations/''
   \<and> req_body (fe_request env st (reservationAPI_create (reservation_json d))) =
       Some (JsonText (JObj [(''bus_id'', JNum (rc_bus_id d)),
                             (''seat_numbers'', JArr (map JStr (rc_seat_numbers d))),
                             (''reservation_date'', JStr (rc_reservation_date d))]))"
    by (simp add: apiClient_defs stringify_body_def reservation_json_def)
  have e: "req_method (api_request env st (api_reservations_create d2)) = POST
   \<and> req_url (api_request env st (api_reservations_create d2)) =
       API_BASE_URL env @ ''/api/reservations''
   \<and> req_body (api_request env st (api_reservations_create d2)) =
       Some (JsonText (JObj [(''userId'', JNum (r2_userId d2)), (''busId'', JNum (r2_busId d2)),
                             (''seatNumber'', JNum (r2_seatNumber d2)),
                             (''status'', JStr (status_string (r2_status d2)))]))"
    by (simp add: api_request_def apiRequest_fetch_def reservation2_json_def)
  from a b c e show ?thesis by blast
qed

theorem C6_reservation_create_witness:
  "req_url (fe_request None session_browser (reservationAPI_create (reservation_json two_seats))) =
     ''http://localhost:8000/api/reservations/''
   \<and> req_body (fe_request None session_browser (reservationAPI_create (reservation_json two_seats))) =
       Some (JsonText (JObj [(''bus_id'', JNum 1),
                             (''seat_numbers'', JArr [JStr ''A1'', JStr ''A2'']),
                             (''reservation_date'', JStr ''2024-01-15'')]))
   \<and> fe_run None (always two_reservations_response) session_browser
        (reservationAPI_create (reservation_json two_seats)) =
       (session_browser, Inr (JArr [reservation_record 10 ''A1'', reservation_record 11 ''A2'']))
   \<and> api_run None (always two_reservations_response) session_browser
        (api_reservations_create one_seat) =
       (session_browser, Inr (JArr [reservation_record 10 ''A1'', reservation_record 11 ''A2'']))"
  using C6_reservation_create [of None session_browser two_seats
          "always two_reservations_response" two_reservations_response "''application/json''"
          "JArr [reservation_record 10 ''A1'', reservation_record 11 ''A2'']" one_seat]
  by (simp add: always_def two_reservations_response_facts API_BASE_URL_def two_seats_def)

section \<open>Login\<close>

text \<open>
  C7 fails for the second module, whose login sends the credentials as a JSON body with
  the JSON content type.
\<close>

theorem C7_counterexample:
  "req_body (api_request None session_browser (api_auth_login ''kim@example.org'' ''secret'')) =
     Some (JsonText (JObj [(''email'', JStr ''kim@example.org''), (''password'', JStr ''secret'')]))
   \<and> req_headers (api_request None session_browser
        (api_auth_login ''kim@example.org'' ''secret'')) =
       [(''Content-Type'', ''application/json'')]"
  by (simp add: api_request_def apiRequest_fetch_def spread_def)

text \<open>
  C7, amended. \<open>authAPI.login\<close> of the frontend module POSTs to \<open>/api/auth/login\<close> the
  username and password as form parameters with the content type
  \<open>application/x-www-form-urlencoded\<close> and no other header, and on a 200-299 response returns
  the decoded JSON body (the token and the principal the backend sent). The second module's
  \<open>api.auth.login\<close> POSTs to the same path a JSON body with email and password, and returns
  the decoded body likewise.
\<close>

theorem C7_login:
  "fe_request env st (authAPI_login d) =
     \<lparr>req_url = API_BASE_URL env @ ''/api/auth/login'', req_method = POST,
      req_headers = [(''Content-Type'', ''application/x-www-form-urlencoded'')],
      req_body = Some (FormParams [(''username'', username d), (''password'', password d)])\<rparr>
   \<and> (net (fe_request env st (authAPI_login d)) = Some r \<and> resp_ok r \<and> resp_json r = Some j
        \<longrightarrow> fe_run env net st (authAPI_login d) = (st, Inr j))
   \<and> api_request env st (api_auth_login email pw) =
     \<lparr>req_url = API_BASE_URL env @ ''/api/auth/login'', req_method = POST,
      req_headers = [(''Content-Type'', ''application/json'')],
      req_body = Some (JsonText (JObj [(''email'', JStr email), (''password'', JStr pw)]))\<rparr>
   \<and> (net (api_request env st (api_auth_login email pw)) = Some r \<and> resp_ok r
        \<and> resp_json r = Some j
        \<longrightarrow> api_run env net st (api_auth_login email pw) = (st, Inr j))"
proof -
  have a: "fe_run env net st (authAPI_login d) = (st, Inr j)"
    if "net (fe_request env st (authAPI_login d)) = Some r" "resp_ok r" "resp_json r = Some j"
    using that by (simp add: fe_run_login login_response_def)
  have b: "api_run env net st (api_auth_login email pw) = (st, Inr j)"
    if "net (api_request env st (api_auth_login email pw)) = Some r" "resp_ok r"
       "resp_json r = Some j"
    using that by (simp add: api_run_def api_request_def apiRequest_ok)
  have c: "fe_request env st (authAPI_login d) =
     \<lparr>req_url = API_BASE_URL env @ ''/api/auth/login'', req_method = POST,
      req_headers = [(''Content-Type'', ''application/x-www-form-urlencoded'')],
      req_body = Some (FormParams [(''username'', username d), (''password'', password d)])\<rparr>"
    by (simp add: login_request_def)
  have e: "api_request env st (api_auth_login email pw) =
     \<lparr>req_url = API_BASE_URL env @ ''/api/auth/login'', req_method = POST,
      req_headers = [(''Content-Type'', ''application/json'')],
      req_body = Some (JsonText (JObj [(''email'', JStr email), (''password'', JStr pw)]))\<rparr>"
    by (simp add: api_request_def apiRequest_fetch_def spread_def)
  from a b c e show ?thesis by blast
qed

theorem C7_login_witness:
  "fe_request None session_browser (authAPI_login kim_login) =
     \<lparr>req_url = ''http://localhost:8000/api/auth/login'', req_method = POST,
      req_headers = [(''Content-Type'', ''application/x-www-form-urlencoded'')],
      req_body = Some (FormParams [(''username'', ''kim''), (''password'', ''secret'')])\<rparr>
   \<and> fe_run None (always login_ok_response) anonymous_browser (authAPI_login kim_login) =
       (anonymous_browser, Inr login_ok_json)
   \<and> api_run None (always login_ok_response) anonymous_browser
        (api_auth_login ''kim@example.org'' ''secret'') = (anonymous_browser, Inr login_ok_json)"
  using C7_login [of None session_browser kim_login "always login_ok_response"
          login_ok_response login_ok_json "''kim@example.org''" "''secret''"]
        C7_login [of None anonymous_browser kim_login "always login_ok_response"
          login_ok_response login_ok_json "''kim@example.org''" "''secret''"]
  by (simp add: always_def login_ok_response_facts API_BASE_URL_def kim_login_def)

section \<open>Listing buses by date\<close>

text \<open>
  C8. \<open>busAPI.getAll\<close> always issues a GET without a body. For every date string \<open>d\<close> (a
  date string is not empty) the URL is the base URL followed by
  \<open>/api/buses/?reservation_date=\<close> and \<open>d\<close>; when the date argument is omitted, no query
  parameter is appended and the URL is the base URL followed by \<open>/api/buses/\<close>. The empty
  string, which is no date, is treated like an omitted argument.
\<close>

theorem C8_getAll_url:
  "req_method (fe_request env st (busAPI_getAll reservationDate)) = GET
   \<and> req_body (fe_request env st (busAPI_getAll reservationDate)) = None
   \<and> (d \<noteq> [] \<longrightarrow>
        req_url (fe_request env st (busAPI_getAll (Some d))) =
          API_BASE_URL env @ ''/api/buses/?reservation_date='' @ d)
   \<and> req_url (fe_request env st (busAPI_getAll None)) = API_BASE_URL env @ ''/api/buses/''
   \<and> req_url (fe_request env st (busAPI_getAll (Some []))) = API_BASE_URL env @ ''/api/buses/''"
  by (simp add: apiClient_defs date_params_def stringify_body_def)

theorem C8_getAll_url_witness:
  "''2024-01-15'' \<noteq> []
   \<and> req_method (fe_request None session_browser (busAPI_getAll (Some ''2024-01-15''))) = GET
   \<and> req_url (fe_request None session_browser (busAPI_getAll (Some ''2024-01-15''))) =
       ''http://localhost:8000/api/buses/?reservation_date=2024-01-15''
   \<and> req_url (fe_request None session_browser (busAPI_getAll None)) =
       ''http://localhost:8000/api/buses/''"
  using C8_getAll_url [of None session_browser "Some ''2024-01-15''" "''2024-01-15''"]
  by (simp add: API_BASE_URL_def)

section \<open>The persisted store under the 401 interceptor\<close>

text \<open>
  C9. Frame property of the frontend module. When a response with status 401 is handled,
  the store afterwards is the store before with the keys \<open>token\<close> and \<open>user\<close> removed and
  every other key as it was. On a response with any other status, and when \<open>fetch\<close> itself
  rejects, the store is not modified; this holds for every operation, \<open>authAPI.login\<close>
  included (which leaves the store alone on every status).
\<close>

theorem C9_store_frame:
  "(net req = Some r \<and> resp_status r = 401 \<longrightarrow>
      localStorage (fst (client_send net st req)) =
        AList.delete ''user'' (AList.delete ''token'' (localStorage st))
      \<and> (\<forall>k. getItem (fst (client_send net st req)) k =
               (if k = ''token'' \<or> k = ''user'' then None else getItem st k)))
   \<and> (net req = Some r \<and> resp_status r \<noteq> 401 \<longrightarrow>
        localStorage (fst (client_send net st req)) = localStorage st)
   \<and> (net req = None \<longrightarrow> localStorage (fst (client_send net st req)) = localStorage st)
   \<and> (net (fe_request env st op) = Some r \<and> resp_status r \<noteq> 401 \<longrightarrow>
        localStorage (fst (fe_run env net st op)) = localStorage st)"
proof -
  have a: "localStorage (fst (client_send net st req)) =
             AList.delete ''user'' (AList.delete ''token'' (localStorage st))"
    if "net req = Some r" "resp_status r = 401"
    using that by (simp add: client_send_def handleResponse_401 removeItem_def)
  have b: "getItem (fst (client_send net st req)) k =
               (if k = ''token'' \<or> k = ''user'' then None else getItem st k)"
    if "net req = Some r" "resp_status r = 401" for k
    using that by (simp add: client_send_def handleResponse_401 getItem_removeItem)
  have c: "localStorage (fst (client_send net st req)) = localStorage st"
    if "net req = Some r" "resp_status r \<noteq> 401"
    using that by (simp add: client_send_def handleResponse_other)
  have d: "localStorage (fst (client_send net st req)) = localStorage st" if "net req = None"
    using that by (simp add: client_send_def)
  have e: "localStorage (fst (fe_run env net st op)) = localStorage st"
    if "net (fe_request env st op) = Some r" "resp_status r \<noteq> 401"
  proof (cases "uses_apiClient op")
    case True
    with that show ?thesis
      by (simp add: fe_run_client client_send_def handleResponse_other)
  next
    case False
    with that show ?thesis
      by (simp add: fe_run_def login_response_state)
  qed
  from a b c d e show ?thesis by blast
qed

theorem C9_store_frame_witness:
  "localStorage (fst (client_send (always unauthorized_response) session_browser
       (fe_request None session_browser reservationAPI_getAll))) = [(''theme'', ''dark'')]
   \<and> localStorage (fst (client_send (always not_found_response) session_browser
       (fe_request None session_browser reservationAPI_getAll))) = localStorage session_browser
   \<and> localStorage (fst (client_send offline session_browser
       (fe_request None session_browser reservationAPI_getAll))) = localStorage session_browser
   \<and> localStorage (fst (fe_run None (always not_found_response) session_browser
       (busAPI_getById 7))) = localStorage session_browser"
  using C9_store_frame [of "always unauthorized_response"
          "fe_request None session_browser reservationAPI_getAll" unauthorized_response
          session_browser None reservationAPI_getAll]
        C9_store_frame [of "always not_found_response"
          "fe_request None session_browser reservationAPI_getAll" not_found_response
          session_browser None "busAPI_getById 7"]
        C9_store_frame [of offline
          "fe_request None session_browser reservationAPI_getAll" not_found_response
          session_browser None reservationAPI_getAll]
  by (simp add: always_def offline_def unauthorized_response_def not_found_response_def
        session_browser_def)

section \<open>The second module never touches the session store\<close>

text \<open>
  C10. Noninterference of the second client module. For any two states of the persisted
  store, the same operation with the same arguments issues the identical request; that
  request never carries an \<open>Authorization\<close> header; running the operation leaves the
  browser state as it was, and its outcome does not depend on the store.
\<close>

theorem C10_store_independent:
  "api_request env st1 op = api_request env st2 op
   \<and> map_of (req_headers (api_request env st1 op)) ''Authorization'' = None
   \<and> fst (api_run env net st1 op) = st1
   \<and> snd (api_run env net st1 op) = snd (api_run env net st2 op)"
proof -
  have "api_request env st1 op = api_request env st2 op"
    by (simp add: api_request_def)
  moreover have "map_of (req_headers (api_request env st1 op)) ''Authorization'' = None"
    by (simp add: api_request_headers)
  moreover have "fst (api_run env net st1 op) = st1"
    by (simp add: api_run_def apiRequest_state)
  moreover have "snd (api_run env net st1 op) = snd (api_run env net st2 op)"
    unfolding api_run_def by (rule apiRequest_result)
  ultimately show ?thesis by simp
qed

theorem C10_store_independent_witness:
  "api_request None session_browser (api_auth_login ''kim@example.org'' ''pw'') =
     \<lparr>req_url = ''http://localhost:8000/api/auth/login'', req_method = POST,
      req_headers = [(''Content-Type'', ''application/json'')],
      req_body = Some (JsonText (JObj [(''email'', JStr ''kim@example.org''),
                                       (''password'', JStr ''pw'')]))\<rparr>
   \<and> api_request None anonymous_browser (api_auth_login ''kim@example.org'' ''pw'') =
       api_request None session_browser (api_auth_login ''kim@example.org'' ''pw'')
   \<and> fst (api_run None (always unauthorized_response) session_browser
         (api_auth_login ''kim@example.org'' ''pw'')) = session_browser
   \<and> snd (api_run None (always unauthorized_response) anonymous_browser
         (api_auth_login ''kim@example.org'' ''pw'')) =
       Inl (ApiError 401 ''API request failed: Unauthorized'')"
  using C10_store_independent [of None session_browser "api_auth_login ''kim@example.org'' ''pw''"
          anonymous_browser "always unauthorized_response"]
  by (simp add: api_request_def apiRequest_fetch_def spread_def API_BASE_URL_def api_run_def
        apiRequest_def always_def unauthorized_response_def resp_ok_def)

end
